theory Spec2Isabelle
  imports Complex_Main "HOL-Library.Multiset" "HOL-Library.List_Lexorder"
    "HOL-Library.Char_ord" "HOL-Library.Product_Lexorder"
begin

section \<open>The heat/load pipeline of processing.py\<close>

text \<open>
  processing.py is five functions, each of which drops one table of a DuckDB database
  and recreates it with one SQL statement. A table is modelled as the list of its rows,
  a row as a record, a nullable column as an \<open>option\<close> (NULL is \<open>None\<close>), and each
  statement as a function from its input tables to its output table. DOUBLE columns are
  read as real numbers, so the arithmetic of the aggregates is exact. The key columns
  (station, region, hour_utc) are taken to be non-null.
\<close>

subsection \<open>Timestamps\<close>

record timestamp =
  ts_year :: int
  ts_month :: nat
  ts_day :: nat
  ts_hour :: nat

text \<open>\<open>DATE_TRUNC('day', ts)\<close>: midnight of the same calendar day.\<close>

definition date_trunc_day :: "timestamp \<Rightarrow> timestamp" where
  "date_trunc_day t = t\<lparr>ts_hour := 0\<rparr>"

definition digit :: "nat \<Rightarrow> char" where
  "digit d = ''0123456789'' ! (d mod 10)"

definition pad2 :: "nat \<Rightarrow> string" where
  "pad2 n = [digit (n div 10), digit n]"

text \<open>\<open>strftime(ts, '%m-%d')\<close>: zero-padded month, a dash, zero-padded day of month.\<close>

definition strftime_mmdd :: "timestamp \<Rightarrow> string" where
  "strftime_mmdd t = pad2 (ts_month t) @ ''-'' @ pad2 (ts_day t)"

text \<open>The order of timestamps, used by ORDER BY.\<close>

definition ts_key :: "timestamp \<Rightarrow> int \<times> nat \<times> nat \<times> nat" where
  "ts_key t = (ts_year t, ts_month t, ts_day t, ts_hour t)"

subsection \<open>SQL aggregates and operators\<close>

text \<open>Every aggregate skips NULL inputs and is NULL on a group with no non-null input.\<close>

definition non_null :: "'a option list \<Rightarrow> 'a list" where
  "non_null xs = map the (filter (\<lambda>x. x \<noteq> None) xs)"

definition sql_max :: "real option list \<Rightarrow> real option" where
  "sql_max xs = (let v = non_null xs in if v = [] then None else Some (Max (set v)))"

definition sql_sum :: "real option list \<Rightarrow> real option" where
  "sql_sum xs = (let v = non_null xs in if v = [] then None else Some (sum_list v))"

definition sql_avg :: "real option list \<Rightarrow> real option" where
  "sql_avg xs = (let v = non_null xs in
     if v = [] then None else Some (sum_list v / real (length v)))"

text \<open>
  \<open>quantile_cont(x, q)\<close>: the non-null inputs are ordered; with \<open>RN = (n - 1) * q\<close>,
  \<open>FRN = floor RN\<close> and \<open>CRN = ceil RN\<close> the result is the element at \<open>FRN\<close> when
  \<open>CRN = FRN\<close>, and otherwise \<open>lo * (1 - d) + hi * d\<close> for the elements \<open>lo\<close>, \<open>hi\<close> at
  \<open>FRN\<close>, \<open>CRN\<close> and \<open>d = RN - FRN\<close>. DuckDB evaluates this in IEEE doubles; here the
  arithmetic is exact, so the value is DuckDB's up to the rounding of the interpolation.
\<close>

definition quantile_cont :: "real option list \<Rightarrow> real \<Rightarrow> real option" where
  "quantile_cont xs q =
     (let v = sort (non_null xs); n = length v in
      if n = 0 then None
      else let RN = real (n - 1) * q; FRN = nat \<lfloor>RN\<rfloor>; CRN = nat \<lceil>RN\<rceil> in
        if CRN = FRN then Some (v ! FRN)
        else Some (v ! FRN * (1 - (RN - real FRN)) + v ! CRN * (RN - real FRN)))"

text \<open>\<open>a >= b\<close> is NULL as soon as one side is NULL.\<close>

definition sql_ge :: "real option \<Rightarrow> real option \<Rightarrow> bool option" where
  "sql_ge a b = (case (a, b) of (Some x, Some y) \<Rightarrow> Some (x \<ge> y) | _ \<Rightarrow> None)"

text \<open>
  GROUP BY: one group per distinct key, holding the rows with that key. SELECT DISTINCT
  is \<open>remdups\<close>. The order of the groups is not fixed by SQL; the statements that end in
  ORDER BY sort them.
\<close>

definition group_by :: "('r \<Rightarrow> 'k) \<Rightarrow> 'r list \<Rightarrow> ('k \<times> 'r list) list" where
  "group_by key rows =
     map (\<lambda>k. (k, filter (\<lambda>r. key r = k) rows)) (remdups (map key rows))"

text \<open>LEFT JOIN: the matching rows of the right table, or one NULL row when none matches.\<close>

definition left_matches :: "('b \<Rightarrow> bool) \<Rightarrow> 'b list \<Rightarrow> 'b option list" where
  "left_matches p ys = (if filter p ys = [] then [None] else map Some (filter p ys))"

subsection \<open>Tables\<close>

record noaa_hourly_row =
  nh_station :: string
  nh_hour_utc :: timestamp
  nh_temp_C :: "real option"

record noaa_daily_row =
  nd_station :: string
  nd_day_utc :: timestamp
  nd_daily_max_temp_C :: "real option"
  nd_avg_temp_C :: "real option"

record threshold_row =
  th_station :: string
  th_mmdd :: string
  th_t90_max :: "real option"

record flag_row =
  hf_station :: string
  hf_day_utc :: timestamp
  hf_daily_max_temp_C :: "real option"
  hf_avg_temp_C :: "real option"
  hf_t90_max :: "real option"
  hf_is_hot_day :: int

record eia_hourly_row =
  eh_region :: string
  eh_hour_utc :: timestamp
  eh_load_mwh :: "real option"

record eia_daily_row =
  ed_region :: string
  ed_day_utc :: timestamp
  ed_daily_total_mwh :: "real option"
  ed_daily_peak_mwh :: "real option"

record heat_load_row =
  hl_station :: string
  hl_region :: "string option"
  hl_day_utc :: timestamp
  hl_daily_max_temp_C :: "real option"
  hl_avg_temp_C :: "real option"
  hl_t90_max :: "real option"
  hl_is_hot_day :: "bool option"
  hl_daily_total_mwh :: "real option"
  hl_daily_peak_mwh :: "real option"

subsection \<open>The five statements\<close>

text \<open>build_noaa_daily: MAX and AVG of temp_C by (station, day), ordered by (station, day).\<close>

definition noaa_daily_temp_sql :: "noaa_hourly_row list \<Rightarrow> noaa_daily_row list" where
  "noaa_daily_temp_sql h =
     sort_key (\<lambda>r. (nd_station r, ts_key (nd_day_utc r)))
       (map (\<lambda>(k, g). \<lparr>nd_station = fst k, nd_day_utc = snd k,
                        nd_daily_max_temp_C = sql_max (map nh_temp_C g),
                        nd_avg_temp_C = sql_avg (map nh_temp_C g)\<rparr>)
          (group_by (\<lambda>r. (nh_station r, date_trunc_day (nh_hour_utc r))) h))"

text \<open>build_noaa_thresholds: quantile_cont(daily_max_temp_C, 0.90) by (station, mmdd).\<close>

definition noaa_temp_thresholds_sql :: "noaa_daily_row list \<Rightarrow> threshold_row list" where
  "noaa_temp_thresholds_sql d =
     map (\<lambda>(k, g). \<lparr>th_station = fst k, th_mmdd = snd k,
                      th_t90_max = quantile_cont (map nd_daily_max_temp_C g) (9 / 10)\<rparr>)
       (group_by (\<lambda>r. (nd_station r, strftime_mmdd (nd_day_utc r))) d)"

text \<open>
  build_noaa_heatwave_flags: the inner join of the daily table with the thresholds on
  (station, mmdd); the CASE gives 1 when the comparison is true and 0 otherwise (also
  when it is NULL).
\<close>

definition noaa_heatwave_flags_sql ::
    "noaa_daily_row list \<Rightarrow> threshold_row list \<Rightarrow> flag_row list" where
  "noaa_heatwave_flags_sql d t =
     sort_key (\<lambda>r. (hf_station r, ts_key (hf_day_utc r)))
       (concat (map (\<lambda>n.
          map (\<lambda>x. \<lparr>hf_station = nd_station n, hf_day_utc = nd_day_utc n,
                     hf_daily_max_temp_C = nd_daily_max_temp_C n,
                     hf_avg_temp_C = nd_avg_temp_C n,
                     hf_t90_max = th_t90_max x,
                     hf_is_hot_day =
                       (if sql_ge (nd_daily_max_temp_C n) (th_t90_max x) = Some True
                        then 1 else 0)\<rparr>)
            (filter (\<lambda>x. nd_station n = th_station x
                        \<and> strftime_mmdd (nd_day_utc n) = th_mmdd x) t)) d))"

text \<open>
  build_eia_daily_load: SELECT DISTINCT of the hourly rows, then SUM and MAX of load_mwh
  by (region, day), ordered by (region, day).
\<close>

definition eia_daily_load_sql :: "eia_hourly_row list \<Rightarrow> eia_daily_row list" where
  "eia_daily_load_sql l =
     sort_key (\<lambda>r. (ed_region r, ts_key (ed_day_utc r)))
       (map (\<lambda>(k, g). \<lparr>ed_region = fst k, ed_day_utc = snd k,
                        ed_daily_total_mwh = sql_sum (map eh_load_mwh g),
                        ed_daily_peak_mwh = sql_max (map eh_load_mwh g)\<rparr>)
          (group_by (\<lambda>r. (eh_region r, date_trunc_day (eh_hour_utc r))) (remdups l)))"

text \<open>
  heat_load_daily. The region column is a CASE without ELSE (NULL for a station that is
  neither IAD nor BOS); the join condition on the load table is a second CASE, with
  ELSE 'ISNE'.
\<close>

definition region_of :: "string \<Rightarrow> string option" where
  "region_of s = (if s = ''IAD'' then Some ''PJM''
                  else if s = ''BOS'' then Some ''ISNE'' else None)"

definition join_region :: "string \<Rightarrow> string" where
  "join_region s = (if s = ''IAD'' then ''PJM'' else ''ISNE'')"

definition heat_load_rows ::
    "threshold_row list \<Rightarrow> eia_daily_row list \<Rightarrow> noaa_daily_row \<Rightarrow> heat_load_row list" where
  "heat_load_rows t e n =
     concat (map (\<lambda>tm. map (\<lambda>em.
         \<lparr>hl_station = nd_station n,
          hl_region = region_of (nd_station n),
          hl_day_utc = nd_day_utc n,
          hl_daily_max_temp_C = nd_daily_max_temp_C n,
          hl_avg_temp_C = nd_avg_temp_C n,
          hl_t90_max = Option.bind tm th_t90_max,
          hl_is_hot_day = sql_ge (nd_daily_max_temp_C n) (Option.bind tm th_t90_max),
          hl_daily_total_mwh = Option.bind em ed_daily_total_mwh,
          hl_daily_peak_mwh = Option.bind em ed_daily_peak_mwh\<rparr>)
        (left_matches (\<lambda>x. ed_region x = join_region (nd_station n)
                           \<and> ed_day_utc x = nd_day_utc n) e))
      (left_matches (\<lambda>x. nd_station n = th_station x
                         \<and> strftime_mmdd (nd_day_utc n) = th_mmdd x) t))"

definition heat_load_daily_sql ::
    "noaa_daily_row list \<Rightarrow> threshold_row list \<Rightarrow> eia_daily_row list \<Rightarrow> heat_load_row list" where
  "heat_load_daily_sql d t e = concat (map (heat_load_rows t e) d)"

subsection \<open>The database and the five functions\<close>

text \<open>
  A table of the database is absent (\<open>None\<close>) or present. A statement that reads an
  absent table raises DuckDB's catalog error, which ends the run.
\<close>

record db =
  noaa_hourly_avg :: "noaa_hourly_row list option"
  eia_load_hourly :: "eia_hourly_row list option"
  noaa_daily_temp :: "noaa_daily_row list option"
  noaa_temp_thresholds :: "threshold_row list option"
  noaa_heatwave_flags :: "flag_row list option"
  eia_daily_load :: "eia_daily_row list option"
  heat_load_daily_tbl :: "heat_load_row list option"

datatype error = CatalogError string

definition build_noaa_daily :: "db \<Rightarrow> error + db" where
  "build_noaa_daily c =
     (case noaa_hourly_avg c of
        None \<Rightarrow> Inl (CatalogError ''noaa_hourly_avg'')
      | Some h \<Rightarrow> Inr (c\<lparr>noaa_daily_temp := Some (noaa_daily_temp_sql h)\<rparr>))"

definition build_noaa_thresholds :: "db \<Rightarrow> error + db" where
  "build_noaa_thresholds c =
     (case noaa_daily_temp c of
        None \<Rightarrow> Inl (CatalogError ''noaa_daily_temp'')
      | Some d \<Rightarrow> Inr (c\<lparr>noaa_temp_thresholds := Some (noaa_temp_thresholds_sql d)\<rparr>))"

definition build_noaa_heatwave_flags :: "db \<Rightarrow> error + db" where
  "build_noaa_heatwave_flags c =
     (case noaa_daily_temp c of
        None \<Rightarrow> Inl (CatalogError ''noaa_daily_temp'')
      | Some d \<Rightarrow>
          (case noaa_temp_thresholds c of
             None \<Rightarrow> Inl (CatalogError ''noaa_temp_thresholds'')
           | Some t \<Rightarrow> Inr (c\<lparr>noaa_heatwave_flags := Some (noaa_heatwave_flags_sql d t)\<rparr>)))"

definition build_eia_daily_load :: "db \<Rightarrow> error + db" where
  "build_eia_daily_load c =
     (case eia_load_hourly c of
        None \<Rightarrow> Inl (CatalogError ''eia_load_hourly'')
      | Some l \<Rightarrow> Inr (c\<lparr>eia_daily_load := Some (eia_daily_load_sql l)\<rparr>))"

definition heat_load_daily :: "db \<Rightarrow> error + db" where
  "heat_load_daily c =
     (case noaa_daily_temp c of
        None \<Rightarrow> Inl (CatalogError ''noaa_daily_temp'')
      | Some d \<Rightarrow>
          (case noaa_temp_thresholds c of
             None \<Rightarrow> Inl (CatalogError ''noaa_temp_thresholds'')
           | Some t \<Rightarrow>
               (case eia_daily_load c of
                  None \<Rightarrow> Inl (CatalogError ''eia_daily_load'')
                | Some e \<Rightarrow>
                    Inr (c\<lparr>heat_load_daily_tbl := Some (heat_load_daily_sql d t e)\<rparr>))))"

definition and_then :: "error + db \<Rightarrow> (db \<Rightarrow> error + db) \<Rightarrow> error + db" where
  "and_then r f = (case r of Inl x \<Rightarrow> Inl x | Inr c \<Rightarrow> f c)"

text \<open>The script's main block: the five functions in order.\<close>

definition main :: "db \<Rightarrow> error + db" where
  "main c =
     and_then (and_then (and_then (and_then (build_noaa_daily c)
       build_noaa_thresholds) build_noaa_heatwave_flags) build_eia_daily_load)
       heat_load_daily"

subsection \<open>The quantile as the specification words it\<close>

text \<open>
  The type-7 quantile: with \<open>h = (n - 1) * q\<close> the value is the order statistic at
  \<open>floor h\<close> plus the fraction of \<open>h\<close> times the step to the next order statistic.
\<close>

definition type7_quantile :: "real \<Rightarrow> real list \<Rightarrow> real option" where
  "type7_quantile q xs =
     (if xs = [] then None
      else let s = sort xs; h = real (length xs - 1) * q; i = nat \<lfloor>h\<rfloor> in
        Some (s ! i + (h - real i) * (s ! min (i + 1) (length xs - 1) - s ! i)))"

subsection \<open>Example tables\<close>

text \<open>Ten years of daily maxima of station S1 on the fourth of July.\<close>

definition s1_history :: "noaa_daily_row list" where
  "s1_history =
     map (\<lambda>(y, v). \<lparr>nd_station = ''S1'',
                     nd_day_utc = \<lparr>ts_year = y, ts_month = 7, ts_day = 4, ts_hour = 0\<rparr>,
                     nd_daily_max_temp_C = Some v, nd_avg_temp_C = Some v\<rparr>)
       [(2001, 30), (2002, 31), (2003, 29), (2004, 32), (2005, 33),
        (2006, 28), (2007, 34), (2008, 35), (2009, 27), (2010, 26)]"

text \<open>Two hourly rows of one station and day, both with a NULL temperature.\<close>

definition null_day :: "noaa_hourly_row list" where
  "null_day =
     [\<lparr>nh_station = ''IAD'', nh_hour_utc = \<lparr>ts_year = 2020, ts_month = 7, ts_day = 4, ts_hour = 0\<rparr>,
       nh_temp_C = None\<rparr>,
      \<lparr>nh_station = ''IAD'', nh_hour_utc = \<lparr>ts_year = 2020, ts_month = 7, ts_day = 4, ts_hour = 1\<rparr>,
       nh_temp_C = None\<rparr>]"

text \<open>One hourly load row of region RX, replayed once.\<close>

definition rx_replay :: "eia_hourly_row list" where
  "rx_replay =
     [\<lparr>eh_region = ''RX'', eh_hour_utc = \<lparr>ts_year = 2023, ts_month = 7, ts_day = 4, ts_hour = 14\<rparr>,
       eh_load_mwh = Some 500\<rparr>,
      \<lparr>eh_region = ''RX'', eh_hour_utc = \<lparr>ts_year = 2023, ts_month = 7, ts_day = 4, ts_hour = 14\<rparr>,
       eh_load_mwh = Some 500\<rparr>]"

text \<open>Station IAD on two fourth of July: a NULL reading in 2020, 30 degrees in 2021.\<close>

definition two_julys :: "noaa_hourly_row list" where
  "two_julys =
     [\<lparr>nh_station = ''IAD'', nh_hour_utc = \<lparr>ts_year = 2020, ts_month = 7, ts_day = 4, ts_hour = 0\<rparr>,
       nh_temp_C = None\<rparr>,
      \<lparr>nh_station = ''IAD'', nh_hour_utc = \<lparr>ts_year = 2021, ts_month = 7, ts_day = 4, ts_hour = 0\<rparr>,
       nh_temp_C = Some 30\<rparr>]"

text \<open>One daily row of station DCA, which is neither IAD nor BOS.\<close>

definition dca_day :: "noaa_daily_row list" where
  "dca_day =
     [\<lparr>nd_station = ''DCA'', nd_day_utc = \<lparr>ts_year = 2023, ts_month = 7, ts_day = 4, ts_hour = 0\<rparr>,
       nd_daily_max_temp_C = Some 33, nd_avg_temp_C = Some 28\<rparr>]"

text \<open>One daily load row of region ISNE on the same day.\<close>

definition isne_day :: "eia_daily_row list" where
  "isne_day =
     [\<lparr>ed_region = ''ISNE'', ed_day_utc = \<lparr>ts_year = 2023, ts_month = 7, ts_day = 4, ts_hour = 0\<rparr>,
       ed_daily_total_mwh = Some 1000, ed_daily_peak_mwh = Some 60\<rparr>]"

text \<open>A database holding the three input tables of heat_load_daily.\<close>

definition dca_db :: db where
  "dca_db = \<lparr>noaa_hourly_avg = None, eia_load_hourly = None, noaa_daily_temp = Some dca_day,
             noaa_temp_thresholds = Some [], noaa_heatwave_flags = None,
             eia_daily_load = Some isne_day, heat_load_daily_tbl = None\<rparr>"

section \<open>Groups, joins and aggregates\<close>

lemma filter_eq_distinct: "distinct xs \<Longrightarrow> x \<in> set xs \<Longrightarrow> filter (\<lambda>y. y = x) xs = [x]"
proof (induction xs)
  case Nil then show ?case by simp
next
  case (Cons a xs)
  show ?case
  proof (cases "a = x")
    case True
    with Cons.prems have "x \<notin> set xs" by simp
    then have "filter (\<lambda>y. y = x) xs = []" by (auto simp: filter_empty_conv)
    with True show ?thesis by simp
  next
    case False
    with Cons show ?thesis by simp
  qed
qed

lemma filter_eq_notin: "x \<notin> set xs \<Longrightarrow> filter (\<lambda>y. y = x) xs = []"
  by (auto simp: filter_empty_conv)

lemma group_by_filter:
  assumes ok: "\<And>k g. okey (mk (k, g)) = k"
  shows "filter (\<lambda>x. okey x = k) (map mk (group_by key rows)) =
         (if k \<in> key ` set rows then [mk (k, filter (\<lambda>r. key r = k) rows)] else [])"
proof -
  have "filter (\<lambda>x. okey x = k) (map mk (group_by key rows)) =
        map (\<lambda>k'. mk (k', filter (\<lambda>r. key r = k') rows))
          (filter (\<lambda>k'. k' = k) (remdups (map key rows)))"
    by (simp add: group_by_def filter_map comp_def ok)
  also have "\<dots> = (if k \<in> key ` set rows then [mk (k, filter (\<lambda>r. key r = k) rows)] else [])"
    by (simp add: filter_eq_distinct filter_eq_notin)
  finally show ?thesis .
qed

lemma length_filter_key_le1:
  "distinct (map f xs) \<Longrightarrow> length (filter (\<lambda>x. f x = k) xs) \<le> 1"
proof (induction xs)
  case Nil then show ?case by simp
next
  case (Cons a xs)
  show ?case
  proof (cases "f a = k")
    case True
    with Cons.prems have "k \<notin> f ` set xs" by auto
    then have "filter (\<lambda>x. f x = k) xs = []" by (auto simp: filter_empty_conv)
    with True show ?thesis by simp
  next
    case False with Cons show ?thesis by simp
  qed
qed

lemma length_filter_key_eq1:
  assumes "distinct (map f xs)" "k \<in> f ` set xs"
  shows "length (filter (\<lambda>x. f x = k) xs) = 1"
proof -
  from assms(2) have "filter (\<lambda>x. f x = k) xs \<noteq> []" by (auto simp: filter_empty_conv)
  then have "length (filter (\<lambda>x. f x = k) xs) \<noteq> 0" by simp
  with length_filter_key_le1 [OF assms(1), of k] show ?thesis by linarith
qed

lemma noaa_daily_filter:
  "filter (\<lambda>x. (nd_station x, nd_day_utc x) = k) (noaa_daily_temp_sql h) =
   (if k \<in> (\<lambda>r. (nh_station r, date_trunc_day (nh_hour_utc r))) ` set h
    then [\<lparr>nd_station = fst k, nd_day_utc = snd k,
           nd_daily_max_temp_C = sql_max (map nh_temp_C (filter (\<lambda>r. (nh_station r, date_trunc_day (nh_hour_utc r)) = k) h)),
           nd_avg_temp_C = sql_avg (map nh_temp_C (filter (\<lambda>r. (nh_station r, date_trunc_day (nh_hour_utc r)) = k) h))\<rparr>]
    else [])"
  unfolding noaa_daily_temp_sql_def filter_sort
  by (subst group_by_filter) (auto simp: case_prod_beta)

lemma non_null_Nil: "non_null xs = [] \<longleftrightarrow> (\<forall>x\<in>set xs. x = None)"
  by (auto simp: non_null_def filter_empty_conv)

lemma set_non_null: "set (non_null xs) = {v. Some v \<in> set xs}"
  by (force simp: non_null_def image_iff)

lemma sort_key_eq_Nil: "sort_key f xs = [] \<longleftrightarrow> xs = []"
  by (metis length_0_conv length_sort)

lemma quantile_cont_type7:
  assumes q: "0 \<le> q" "q \<le> 1"
  shows "quantile_cont xs q = type7_quantile q (non_null xs)"
proof (cases "non_null xs = []")
  case True
  then show ?thesis by (simp add: quantile_cont_def type7_quantile_def)
next
  case False
  define v where "v = sort (non_null xs)"
  define n where "n = length (non_null xs)"
  define RN where "RN = real (n - 1) * q"
  define FRN where "FRN = nat \<lfloor>RN\<rfloor>"
  define CRN where "CRN = nat \<lceil>RN\<rceil>"
  define d where "d = RN - real FRN"
  have vne: "sort (non_null xs) \<noteq> []" using False by (simp add: sort_key_eq_Nil)
  have RN0: "0 \<le> RN" using q by (simp add: RN_def)
  have RN1: "RN \<le> real (n - 1)" using q by (simp add: RN_def mult_left_le)
  have f0: "0 \<le> \<lfloor>RN\<rfloor>" using RN0 by simp
  have fl: "real FRN = of_int \<lfloor>RN\<rfloor>" using f0 by (simp add: FRN_def)
  have t7: "type7_quantile q (non_null xs) =
            Some (v ! FRN + d * (v ! min (FRN + 1) (n - 1) - v ! FRN))"
    using False by (simp add: type7_quantile_def Let_def v_def n_def RN_def FRN_def d_def)
  have qc: "quantile_cont xs q =
            (if CRN = FRN then Some (v ! FRN) else Some (v ! FRN * (1 - d) + v ! CRN * d))"
    using vne by (simp add: quantile_cont_def Let_def v_def n_def RN_def FRN_def CRN_def d_def)
  show ?thesis
  proof (cases "CRN = FRN")
    case True
    then have "\<lceil>RN\<rceil> = \<lfloor>RN\<rfloor>" using f0 unfolding CRN_def FRN_def
      by (metis ceiling_mono ceiling_zero RN0 eq_nat_nat_iff)
    then have "RN = of_int \<lfloor>RN\<rfloor>"
      by (metis ceiling_altdef of_int_floor_cancel add_cancel_right_right zero_neq_one)
    then have "d = 0" using fl by (simp add: d_def)
    with True qc t7 show ?thesis by simp
  next
    case neq: False
    have c: "\<lceil>RN\<rceil> = \<lfloor>RN\<rfloor> + 1"
      using neq by (auto simp: ceiling_altdef CRN_def FRN_def split: if_splits)
    have "\<lceil>RN\<rceil> \<le> int (n - 1)" using RN1 by (simp add: ceiling_le_iff)
    then have le: "FRN + 1 \<le> n - 1" using c f0 unfolding FRN_def by linarith
    have cn: "CRN = FRN + 1" using c f0 unfolding CRN_def FRN_def by linarith
    have m: "min (FRN + 1) (n - 1) = CRN" using le cn by simp
    have "v ! FRN * (1 - d) + v ! CRN * d = v ! FRN + d * (v ! CRN - v ! FRN)"
      by (simp add: algebra_simps)
    with neq qc t7 m show ?thesis by simp
  qed
qed

lemma quantile_cont_single: "quantile_cont [Some x] q = Some x"
  by (simp add: quantile_cont_def non_null_def)

lemma noaa_thresholds_filter:
  "filter (\<lambda>x. (th_station x, th_mmdd x) = k) (noaa_temp_thresholds_sql d) =
   (if k \<in> (\<lambda>r. (nd_station r, strftime_mmdd (nd_day_utc r))) ` set d
    then [\<lparr>th_station = fst k, th_mmdd = snd k,
           th_t90_max = quantile_cont (map nd_daily_max_temp_C
             (filter (\<lambda>r. (nd_station r, strftime_mmdd (nd_day_utc r)) = k) d)) (9 / 10)\<rparr>]
    else [])"
  unfolding noaa_temp_thresholds_sql_def
  by (subst group_by_filter) (auto simp: case_prod_beta)

lemma noaa_thresholds_keys:
  "map (\<lambda>x. (th_station x, th_mmdd x)) (noaa_temp_thresholds_sql d) =
   remdups (map (\<lambda>r. (nd_station r, strftime_mmdd (nd_day_utc r))) d)"
  by (simp add: noaa_temp_thresholds_sql_def group_by_def comp_def case_prod_beta)

lemma sql_max_all_null: "(\<forall>x\<in>set xs. x = None) \<Longrightarrow> sql_max xs = None"
  by (simp add: sql_max_def non_null_Nil)

lemma sql_avg_all_null: "(\<forall>x\<in>set xs. x = None) \<Longrightarrow> sql_avg xs = None"
  by (simp add: sql_avg_def non_null_Nil)

lemma sql_max_some: "\<exists>x\<in>set xs. x \<noteq> None \<Longrightarrow> sql_max xs = Some (Max {v. Some v \<in> set xs})"
proof -
  assume "\<exists>x\<in>set xs. x \<noteq> None"
  then have "non_null xs \<noteq> []" by (simp add: non_null_Nil)
  then show ?thesis by (simp add: sql_max_def Let_def set_non_null)
qed

lemma sql_avg_some:
  "\<exists>x\<in>set xs. x \<noteq> None \<Longrightarrow>
   sql_avg xs = Some (sum_list (non_null xs) / real (length (non_null xs)))"
proof -
  assume "\<exists>x\<in>set xs. x \<noteq> None"
  then have "non_null xs \<noteq> []" by (simp add: non_null_Nil)
  then show ?thesis by (simp add: sql_avg_def Let_def)
qed

lemma eia_daily_filter:
  "filter (\<lambda>x. (ed_region x, ed_day_utc x) = k) (eia_daily_load_sql l) =
   (if k \<in> (\<lambda>r. (eh_region r, date_trunc_day (eh_hour_utc r))) ` set l
    then [\<lparr>ed_region = fst k, ed_day_utc = snd k,
           ed_daily_total_mwh = sql_sum (map eh_load_mwh
             (filter (\<lambda>r. (eh_region r, date_trunc_day (eh_hour_utc r)) = k) (remdups l))),
           ed_daily_peak_mwh = sql_max (map eh_load_mwh
             (filter (\<lambda>r. (eh_region r, date_trunc_day (eh_hour_utc r)) = k) (remdups l)))\<rparr>]
    else [])"
  unfolding eia_daily_load_sql_def filter_sort
  by (subst group_by_filter) (auto simp: case_prod_beta)

lemma non_null_map: "non_null (map f xs) = map (\<lambda>x. the (f x)) (filter (\<lambda>x. f x \<noteq> None) xs)"
  by (simp add: non_null_def filter_map comp_def)

lemma sql_sum_distinct:
  assumes "distinct g"
  shows "sql_sum (map f g) =
         (if {x \<in> set g. f x \<noteq> None} = {} then None
          else Some (\<Sum>x\<in>{x \<in> set g. f x \<noteq> None}. the (f x)))"
proof -
  have d: "distinct (filter (\<lambda>x. f x \<noteq> None) g)" using assms by simp
  have s: "set (filter (\<lambda>x. f x \<noteq> None) g) = {x \<in> set g. f x \<noteq> None}" by simp
  have e: "non_null (map f g) = [] \<longleftrightarrow> {x \<in> set g. f x \<noteq> None} = {}"
    by (auto simp: non_null_map filter_empty_conv)
  have "sum_list (non_null (map f g)) = (\<Sum>x\<in>{x \<in> set g. f x \<noteq> None}. the (f x))"
    unfolding non_null_map using sum_list_distinct_conv_sum_set [OF d, of "\<lambda>x. the (f x)"] s
    by simp
  with e show ?thesis by (simp add: sql_sum_def Let_def)
qed

lemma sql_max_image:
  "sql_max (map f g) =
     (if {x \<in> set g. f x \<noteq> None} = {} then None
      else Some (Max ((\<lambda>x. the (f x)) ` {x \<in> set g. f x \<noteq> None})))"
proof -
  have e: "non_null (map f g) = [] \<longleftrightarrow> {x \<in> set g. f x \<noteq> None} = {}"
    by (auto simp: non_null_map filter_empty_conv)
  have "set (non_null (map f g)) = (\<lambda>x. the (f x)) ` {x \<in> set g. f x \<noteq> None}"
    by (simp add: non_null_map)
  with e show ?thesis by (simp add: sql_max_def Let_def)
qed

lemma ts_key_inj: "ts_key a = ts_key b \<Longrightarrow> a = b"
  by (cases a, cases b) (simp add: ts_key_def)

lemma distinct_map_sort_key: "distinct (map f (sort_key g xs)) = distinct (map f xs)"
  by (simp add: distinct_map)

lemma eia_daily_okeys:
  "distinct (map (\<lambda>x. (ed_region x, ed_day_utc x)) (eia_daily_load_sql l))"
proof -
  let ?xs = "map (\<lambda>(k, g). \<lparr>ed_region = fst k, ed_day_utc = snd k,
                        ed_daily_total_mwh = sql_sum (map eh_load_mwh g),
                        ed_daily_peak_mwh = sql_max (map eh_load_mwh g)\<rparr>)
          (group_by (\<lambda>r. (eh_region r, date_trunc_day (eh_hour_utc r))) (remdups l))"
  have "map (\<lambda>x. (ed_region x, ed_day_utc x)) ?xs =
        remdups (map (\<lambda>r. (eh_region r, date_trunc_day (eh_hour_utc r))) (remdups l))"
    by (simp add: group_by_def comp_def case_prod_beta)
  then have "distinct (map (\<lambda>x. (ed_region x, ed_day_utc x)) ?xs)" by simp
  then show ?thesis
    unfolding eia_daily_load_sql_def by (simp only: distinct_map_sort_key)
qed

lemma eia_daily_load_set_only:
  assumes "set l' = set l"
  shows "eia_daily_load_sql l' = eia_daily_load_sql l"
proof -
  let ?K = "\<lambda>r. (ed_region r, ts_key (ed_day_utc r))"
  let ?ok = "\<lambda>x. (ed_region x, ed_day_utc x)"
  let ?key = "\<lambda>r. (eh_region r, date_trunc_day (eh_hour_utc r))"
  have grp: "\<And>k. set (filter (\<lambda>r. ?key r = k) (remdups l')) = set (filter (\<lambda>r. ?key r = k) (remdups l))"
    using assms by simp
  have row: "\<And>k. filter (\<lambda>x. ?ok x = k) (eia_daily_load_sql l') =
                 filter (\<lambda>x. ?ok x = k) (eia_daily_load_sql l)"
  proof -
    fix k
    have "sql_sum (map eh_load_mwh (filter (\<lambda>r. ?key r = k) (remdups l'))) =
          sql_sum (map eh_load_mwh (filter (\<lambda>r. ?key r = k) (remdups l)))"
      by (simp only: sql_sum_distinct distinct_filter distinct_remdups grp)
    moreover have "sql_max (map eh_load_mwh (filter (\<lambda>r. ?key r = k) (remdups l'))) =
          sql_max (map eh_load_mwh (filter (\<lambda>r. ?key r = k) (remdups l)))"
      by (simp only: sql_max_image grp)
    ultimately show "filter (\<lambda>x. ?ok x = k) (eia_daily_load_sql l') =
                 filter (\<lambda>x. ?ok x = k) (eia_daily_load_sql l)"
      by (simp only: eia_daily_filter assms)
  qed
  have sets: "set (eia_daily_load_sql l') = set (eia_daily_load_sql l)"
  proof (rule set_eqI)
    fix x
    have "x \<in> set (eia_daily_load_sql l') \<longleftrightarrow>
          x \<in> set (filter (\<lambda>y. ?ok y = ?ok x) (eia_daily_load_sql l'))"
      by simp
    also have "\<dots> \<longleftrightarrow> x \<in> set (filter (\<lambda>y. ?ok y = ?ok x) (eia_daily_load_sql l))"
      by (simp only: row)
    also have "\<dots> \<longleftrightarrow> x \<in> set (eia_daily_load_sql l)"
      by simp
    finally show "x \<in> set (eia_daily_load_sql l') \<longleftrightarrow> x \<in> set (eia_daily_load_sql l)" .
  qed
  have dK: "\<And>m. distinct (map ?K (eia_daily_load_sql m))"
  proof -
    fix m
    have "map ?K (eia_daily_load_sql m) = map (\<lambda>(r, d). (r, ts_key d)) (map ?ok (eia_daily_load_sql m))"
      by simp
    moreover have "inj (\<lambda>(r :: string, d). (r, ts_key d))"
      by (auto simp: inj_on_def dest: ts_key_inj)
    ultimately show "distinct (map ?K (eia_daily_load_sql m))"
      using eia_daily_okeys [of m] by (simp only: distinct_map) (auto intro: inj_on_subset)
  qed
  have sK: "\<And>m. sorted (map ?K (eia_daily_load_sql m))"
    by (simp add: eia_daily_load_sql_def)
  have inj: "inj_on ?K (set (eia_daily_load_sql l') \<union> set (eia_daily_load_sql l))"
    using dK [of l] sets by (simp add: distinct_map)
  show ?thesis
    by (rule map_sorted_distinct_set_unique [OF inj sK dK sK dK sets])
qed


lemma set_left_matches:
  "set (left_matches p ys) =
     (if \<forall>y\<in>set ys. \<not> p y then {None} else Some ` {y \<in> set ys. p y})"
  by (auto simp: left_matches_def filter_empty_conv)

lemma left_matches_nonempty: "left_matches p ys \<noteq> []"
  by (simp add: left_matches_def)


lemma thresholds_match_eq1:
  assumes "n \<in> set d"
  shows "length (filter (\<lambda>x. nd_station n = th_station x \<and> strftime_mmdd (nd_day_utc n) = th_mmdd x)
             (noaa_temp_thresholds_sql d)) = 1"
proof -
  have dist: "distinct (map (\<lambda>x. (th_station x, th_mmdd x)) (noaa_temp_thresholds_sql d))"
    by (simp only: noaa_thresholds_keys distinct_remdups)
  have "(nd_station n, strftime_mmdd (nd_day_utc n)) \<in>
        set (map (\<lambda>x. (th_station x, th_mmdd x)) (noaa_temp_thresholds_sql d))"
    using assms by (simp only: noaa_thresholds_keys set_remdups) force
  then have "(nd_station n, strftime_mmdd (nd_day_utc n)) \<in>
        (\<lambda>x. (th_station x, th_mmdd x)) ` set (noaa_temp_thresholds_sql d)"
    by simp
  from length_filter_key_eq1 [OF dist this]
  have len: "length (filter (\<lambda>x. (th_station x, th_mmdd x) = (nd_station n, strftime_mmdd (nd_day_utc n)))
             (noaa_temp_thresholds_sql d)) = 1" .
  have eq: "(\<lambda>x. (th_station x, th_mmdd x) = (nd_station n, strftime_mmdd (nd_day_utc n))) =
                 (\<lambda>x. nd_station n = th_station x \<and> strftime_mmdd (nd_day_utc n) = th_mmdd x)"
    by auto
  from len show ?thesis unfolding eq .
qed


lemma concat_map_single:
  assumes "\<And>n. n \<in> set d \<Longrightarrow> \<exists>r. f n = [r] \<and> g r = g' n"
  shows "length (concat (map f d)) = length d \<and> map g (concat (map f d)) = map g' d"
  using assms
proof (induction d)
  case Nil
  then show ?case by simp
next
  case (Cons a d)
  from Cons.prems [of a] obtain r where r: "f a = [r]" "g r = g' a" by auto
  have "length (concat (map f d)) = length d \<and> map g (concat (map f d)) = map g' d"
    by (rule Cons.IH) (simp add: Cons.prems)
  with r show ?case by simp
qed

lemma set_heat_load_daily_sql:
  "set (heat_load_daily_sql d t e) = (\<Union>n\<in>set d. set (heat_load_rows t e n))"
  by (simp add: heat_load_daily_sql_def)

lemma heat_load_rows_fields:
  assumes "r \<in> set (heat_load_rows t e n)"
  shows "hl_station r = nd_station n \<and> hl_day_utc r = nd_day_utc n
       \<and> hl_region r = region_of (nd_station n)
       \<and> hl_daily_max_temp_C r = nd_daily_max_temp_C n
       \<and> hl_avg_temp_C r = nd_avg_temp_C n
       \<and> hl_is_hot_day r = sql_ge (hl_daily_max_temp_C r) (hl_t90_max r)"
  using assms by (auto simp: heat_load_rows_def)

lemma heat_load_rows_threshold:
  assumes "r \<in> set (heat_load_rows t e n)"
  shows "if \<forall>x\<in>set t. \<not> (nd_station n = th_station x \<and> strftime_mmdd (nd_day_utc n) = th_mmdd x)
         then hl_t90_max r = None
         else \<exists>x\<in>set t. nd_station n = th_station x \<and> strftime_mmdd (nd_day_utc n) = th_mmdd x
                \<and> hl_t90_max r = th_t90_max x"
  using assms by (auto simp: heat_load_rows_def set_left_matches split: if_splits)

lemma heat_load_rows_load:
  assumes "r \<in> set (heat_load_rows t e n)"
  shows "if \<forall>x\<in>set e. \<not> (ed_region x = join_region (nd_station n) \<and> ed_day_utc x = nd_day_utc n)
         then hl_daily_total_mwh r = None \<and> hl_daily_peak_mwh r = None
         else \<exists>x\<in>set e. ed_region x = join_region (nd_station n) \<and> ed_day_utc x = nd_day_utc n
                \<and> hl_daily_total_mwh r = ed_daily_total_mwh x
                \<and> hl_daily_peak_mwh r = ed_daily_peak_mwh x"
  using assms by (auto simp: heat_load_rows_def set_left_matches split: if_splits)

lemma heat_load_rows_nonempty: "heat_load_rows t e n \<noteq> []"
proof -
  obtain tm ts where t: "left_matches (\<lambda>x. nd_station n = th_station x
                         \<and> strftime_mmdd (nd_day_utc n) = th_mmdd x) t = tm # ts"
    using left_matches_nonempty by (metis list.exhaust)
  obtain em es where e: "left_matches (\<lambda>x. ed_region x = join_region (nd_station n)
                           \<and> ed_day_utc x = nd_day_utc n) e = em # es"
    using left_matches_nonempty by (metis list.exhaust)
  show ?thesis by (simp add: heat_load_rows_def t e)
qed


section \<open>The example tables, evaluated\<close>


lemma two_julys_daily:
  "noaa_daily_temp_sql two_julys =
     [\<lparr>nd_station = ''IAD'', nd_day_utc = \<lparr>ts_year = 2020, ts_month = 7, ts_day = 4, ts_hour = 0\<rparr>,
       nd_daily_max_temp_C = None, nd_avg_temp_C = None\<rparr>,
      \<lparr>nd_station = ''IAD'', nd_day_utc = \<lparr>ts_year = 2021, ts_month = 7, ts_day = 4, ts_hour = 0\<rparr>,
       nd_daily_max_temp_C = Some 30, nd_avg_temp_C = Some 30\<rparr>]"
  by (simp add: two_julys_def noaa_daily_temp_sql_def group_by_def date_trunc_day_def
      sql_max_def sql_avg_def non_null_def ts_key_def)

lemma two_julys_thresholds:
  "noaa_temp_thresholds_sql (noaa_daily_temp_sql two_julys) =
     [\<lparr>th_station = ''IAD'', th_mmdd = ''07-04'', th_t90_max = Some 30\<rparr>]"
  by (simp add: two_julys_daily noaa_temp_thresholds_sql_def group_by_def strftime_mmdd_def
      pad2_def digit_def quantile_cont_def non_null_def)

lemma two_julys_unified:
  "heat_load_daily_sql (noaa_daily_temp_sql two_julys)
     (noaa_temp_thresholds_sql (noaa_daily_temp_sql two_julys)) [] =
   [\<lparr>hl_station = ''IAD'', hl_region = Some ''PJM'',
     hl_day_utc = \<lparr>ts_year = 2020, ts_month = 7, ts_day = 4, ts_hour = 0\<rparr>,
     hl_daily_max_temp_C = None, hl_avg_temp_C = None, hl_t90_max = Some 30,
     hl_is_hot_day = None, hl_daily_total_mwh = None, hl_daily_peak_mwh = None\<rparr>,
    \<lparr>hl_station = ''IAD'', hl_region = Some ''PJM'',
     hl_day_utc = \<lparr>ts_year = 2021, ts_month = 7, ts_day = 4, ts_hour = 0\<rparr>,
     hl_daily_max_temp_C = Some 30, hl_avg_temp_C = Some 30, hl_t90_max = Some 30,
     hl_is_hot_day = Some True, hl_daily_total_mwh = None, hl_daily_peak_mwh = None\<rparr>]"
  unfolding two_julys_thresholds
  by (simp add: two_julys_daily heat_load_daily_sql_def heat_load_rows_def left_matches_def
      strftime_mmdd_def pad2_def digit_def region_of_def join_region_def sql_ge_def)

lemma dca_unified:
  "heat_load_daily_sql dca_day [] isne_day =
   [\<lparr>hl_station = ''DCA'', hl_region = None,
     hl_day_utc = \<lparr>ts_year = 2023, ts_month = 7, ts_day = 4, ts_hour = 0\<rparr>,
     hl_daily_max_temp_C = Some 33, hl_avg_temp_C = Some 28, hl_t90_max = None,
     hl_is_hot_day = None, hl_daily_total_mwh = Some 1000, hl_daily_peak_mwh = Some 60\<rparr>]"
  by (simp add: dca_day_def isne_day_def heat_load_daily_sql_def heat_load_rows_def
      left_matches_def region_of_def join_region_def sql_ge_def)

section \<open>The threshold estimator\<close>

text \<open>
  C1. For every row of the daily table, the threshold table holds exactly one row for
  the row's station and calendar day, and its t90_max is the type-7 quantile at 0.9 of
  the non-null daily maxima of that station on that calendar day. On the ten samples
  30, 31, 29, 32, 33, 28, 34, 35, 27, 26 the quantile is 34.1, and on a single sample it is
  that sample.
\<close>

theorem thresholds_type7:
  assumes "r \<in> set d"
  shows "filter (\<lambda>x. th_station x = nd_station r \<and> th_mmdd x = strftime_mmdd (nd_day_utc r))
           (noaa_temp_thresholds_sql d) =
         [\<lparr>th_station = nd_station r, th_mmdd = strftime_mmdd (nd_day_utc r),
           th_t90_max = type7_quantile (9 / 10) (non_null (map nd_daily_max_temp_C
             (filter (\<lambda>x. nd_station x = nd_station r
                         \<and> strftime_mmdd (nd_day_utc x) = strftime_mmdd (nd_day_utc r)) d)))\<rparr>]
       \<and> quantile_cont (map Some [30, 31, 29, 32, 33, 28, 34, 35, 27, 26]) (9 / 10) = Some (341 / 10)
       \<and> quantile_cont [Some s] (9 / 10) = Some s"
proof -
  let ?k = "(nd_station r, strftime_mmdd (nd_day_utc r))"
  have in_keys: "?k \<in> (\<lambda>r. (nd_station r, strftime_mmdd (nd_day_utc r))) ` set d"
    using assms by (rule imageI)
  have "filter (\<lambda>x. (th_station x, th_mmdd x) = ?k) (noaa_temp_thresholds_sql d) =
        [\<lparr>th_station = fst ?k, th_mmdd = snd ?k,
          th_t90_max = quantile_cont (map nd_daily_max_temp_C
            (filter (\<lambda>r. (nd_station r, strftime_mmdd (nd_day_utc r)) = ?k) d)) (9 / 10)\<rparr>]"
    using in_keys by (simp only: noaa_thresholds_filter if_True)
  then have row: "filter (\<lambda>x. th_station x = nd_station r \<and> th_mmdd x = strftime_mmdd (nd_day_utc r))
           (noaa_temp_thresholds_sql d) =
         [\<lparr>th_station = nd_station r, th_mmdd = strftime_mmdd (nd_day_utc r),
           th_t90_max = quantile_cont (map nd_daily_max_temp_C
             (filter (\<lambda>x. nd_station x = nd_station r
                         \<and> strftime_mmdd (nd_day_utc x) = strftime_mmdd (nd_day_utc r)) d)) (9 / 10)\<rparr>]"
    by simp
  have ex: "quantile_cont (map Some [30, 31, 29, 32, 33, 28, 34, 35, 27, 26]) (9 / 10) = Some (341 / 10)"
    by (simp add: quantile_cont_def non_null_def Let_def)
  from row ex show ?thesis
    by (simp add: quantile_cont_type7 [symmetric] quantile_cont_single)
qed

theorem thresholds_type7_witness:
  "s1_history ! 0 \<in> set s1_history
   \<and> filter (\<lambda>x. th_station x = ''S1'' \<and> th_mmdd x = ''07-04'')
       (noaa_temp_thresholds_sql s1_history) =
     [\<lparr>th_station = ''S1'', th_mmdd = ''07-04'', th_t90_max = Some (341 / 10)\<rparr>]"
proof -
  have m: "s1_history ! 0 \<in> set s1_history" by (simp add: s1_history_def)
  have q: "type7_quantile (9 / 10) [30, 31, 29, 32, 33, 28, 34, 35, 27, 26] = Some (341 / 10)"
    by (simp add: type7_quantile_def Let_def)
  from thresholds_type7 [OF m] q m show ?thesis
    by (simp add: s1_history_def strftime_mmdd_def pad2_def digit_def non_null_def)
qed

section \<open>The daily temperature aggregator\<close>

text \<open>
  C6, as the statement behaves. For every (station, day) with an hourly row, the daily
  table holds exactly one row. When every temperature of the group is NULL that row is
  still there, with NULL daily_max_temp_C and NULL avg_temp_C; otherwise the maximum and
  the mean are taken over the non-null temperatures only.
\<close>

theorem noaa_daily_null_group_row:
  assumes "r \<in> set h"
    and "g = filter (\<lambda>x. nh_station x = nh_station r
              \<and> date_trunc_day (nh_hour_utc x) = date_trunc_day (nh_hour_utc r)) h"
  shows "\<exists>x. filter (\<lambda>x. nd_station x = nh_station r
                        \<and> nd_day_utc x = date_trunc_day (nh_hour_utc r))
               (noaa_daily_temp_sql h) = [x]
           \<and> ((\<forall>y\<in>set g. nh_temp_C y = None) \<longrightarrow>
                nd_daily_max_temp_C x = None \<and> nd_avg_temp_C x = None)
           \<and> ((\<exists>y\<in>set g. nh_temp_C y \<noteq> None) \<longrightarrow>
                nd_daily_max_temp_C x = Some (Max {v. Some v \<in> nh_temp_C ` set g})
                \<and> nd_avg_temp_C x =
                    Some (sum_list (non_null (map nh_temp_C g))
                          / real (length (non_null (map nh_temp_C g)))))"
proof -
  let ?k = "(nh_station r, date_trunc_day (nh_hour_utc r))"
  have in_keys: "?k \<in> (\<lambda>r. (nh_station r, date_trunc_day (nh_hour_utc r))) ` set h"
    using assms(1) by (rule imageI)
  have geq: "filter (\<lambda>r. (nh_station r, date_trunc_day (nh_hour_utc r)) = ?k) h = g"
    by (simp add: assms(2))
  have "filter (\<lambda>x. (nd_station x, nd_day_utc x) = ?k) (noaa_daily_temp_sql h) =
        [\<lparr>nd_station = fst ?k, nd_day_utc = snd ?k,
          nd_daily_max_temp_C = sql_max (map nh_temp_C g),
          nd_avg_temp_C = sql_avg (map nh_temp_C g)\<rparr>]"
    using in_keys by (simp only: noaa_daily_filter if_True geq)
  then have row: "filter (\<lambda>x. nd_station x = nh_station r
                        \<and> nd_day_utc x = date_trunc_day (nh_hour_utc r))
               (noaa_daily_temp_sql h) =
        [\<lparr>nd_station = nh_station r, nd_day_utc = date_trunc_day (nh_hour_utc r),
          nd_daily_max_temp_C = sql_max (map nh_temp_C g),
          nd_avg_temp_C = sql_avg (map nh_temp_C g)\<rparr>]"
    by simp
  have a: "(\<forall>y\<in>set g. nh_temp_C y = None) \<longrightarrow>
           sql_max (map nh_temp_C g) = None \<and> sql_avg (map nh_temp_C g) = None"
    by (simp add: sql_max_all_null sql_avg_all_null)
  have b: "(\<exists>y\<in>set g. nh_temp_C y \<noteq> None) \<longrightarrow>
           sql_max (map nh_temp_C g) = Some (Max {v. Some v \<in> nh_temp_C ` set g})
           \<and> sql_avg (map nh_temp_C g) =
               Some (sum_list (non_null (map nh_temp_C g))
                     / real (length (non_null (map nh_temp_C g))))"
    using sql_max_some [of "map nh_temp_C g"] sql_avg_some [of "map nh_temp_C g"] by simp
  from row a b show ?thesis by simp
qed

theorem noaa_daily_null_group_row_witness:
  "null_day ! 0 \<in> set null_day
   \<and> (\<exists>x. filter (\<lambda>x. nd_station x = ''IAD''
              \<and> nd_day_utc x = \<lparr>ts_year = 2020, ts_month = 7, ts_day = 4, ts_hour = 0\<rparr>)
            (noaa_daily_temp_sql null_day) = [x]
          \<and> nd_daily_max_temp_C x = None \<and> nd_avg_temp_C x = None)"
proof -
  have m: "null_day ! 0 \<in> set null_day" by (simp add: null_day_def)
  from noaa_daily_null_group_row [OF m refl] m show ?thesis
    by (simp add: null_day_def date_trunc_day_def)
qed

text \<open>
  C6, as claimed, fails: a (station, day) whose two hourly temperatures are both NULL
  does get a row in the daily table.
\<close>

theorem noaa_daily_null_group_counterexample:
  "noaa_daily_temp_sql
     [\<lparr>nh_station = ''IAD'', nh_hour_utc = \<lparr>ts_year = 2020, ts_month = 7, ts_day = 4, ts_hour = 0\<rparr>,
       nh_temp_C = None\<rparr>,
      \<lparr>nh_station = ''IAD'', nh_hour_utc = \<lparr>ts_year = 2020, ts_month = 7, ts_day = 4, ts_hour = 1\<rparr>,
       nh_temp_C = None\<rparr>] =
   [\<lparr>nd_station = ''IAD'', nd_day_utc = \<lparr>ts_year = 2020, ts_month = 7, ts_day = 4, ts_hour = 0\<rparr>,
     nd_daily_max_temp_C = None, nd_avg_temp_C = None\<rparr>]"
  by (simp add: noaa_daily_temp_sql_def group_by_def date_trunc_day_def sql_max_def
      sql_avg_def non_null_def)

section \<open>The daily load aggregator\<close>

text \<open>
  C5. For every (region, day) with an hourly load row, the daily load table holds exactly
  one row; its daily_total_mwh is the sum, and its daily_peak_mwh the maximum, of
  load_mwh over the set of distinct hourly rows of that region and day with a non-null
  load, so that a row present N times counts once. The whole table is the same for two
  inputs with the same set of rows.
\<close>

theorem eia_daily_load_counts_once:
  assumes "r \<in> set l"
    and "V = {x \<in> set l. eh_region x = eh_region r
               \<and> date_trunc_day (eh_hour_utc x) = date_trunc_day (eh_hour_utc r)
               \<and> eh_load_mwh x \<noteq> None}"
    and "set l' = set l"
  shows "filter (\<lambda>x. ed_region x = eh_region r \<and> ed_day_utc x = date_trunc_day (eh_hour_utc r))
           (eia_daily_load_sql l) =
         [\<lparr>ed_region = eh_region r, ed_day_utc = date_trunc_day (eh_hour_utc r),
           ed_daily_total_mwh = (if V = {} then None else Some (\<Sum>x\<in>V. the (eh_load_mwh x))),
           ed_daily_peak_mwh =
             (if V = {} then None else Some (Max ((\<lambda>x. the (eh_load_mwh x)) ` V)))\<rparr>]
       \<and> eia_daily_load_sql l' = eia_daily_load_sql l"
proof -
  let ?k = "(eh_region r, date_trunc_day (eh_hour_utc r))"
  let ?g = "filter (\<lambda>r. (eh_region r, date_trunc_day (eh_hour_utc r)) = ?k) (remdups l)"
  have in_keys: "?k \<in> (\<lambda>r. (eh_region r, date_trunc_day (eh_hour_utc r))) ` set l"
    using assms(1) by (rule imageI)
  have "filter (\<lambda>x. (ed_region x, ed_day_utc x) = ?k) (eia_daily_load_sql l) =
        [\<lparr>ed_region = fst ?k, ed_day_utc = snd ?k,
          ed_daily_total_mwh = sql_sum (map eh_load_mwh ?g),
          ed_daily_peak_mwh = sql_max (map eh_load_mwh ?g)\<rparr>]"
    using in_keys by (simp only: eia_daily_filter if_True)
  then have row: "filter (\<lambda>x. ed_region x = eh_region r
                         \<and> ed_day_utc x = date_trunc_day (eh_hour_utc r))
           (eia_daily_load_sql l) =
        [\<lparr>ed_region = eh_region r, ed_day_utc = date_trunc_day (eh_hour_utc r),
          ed_daily_total_mwh = sql_sum (map eh_load_mwh ?g),
          ed_daily_peak_mwh = sql_max (map eh_load_mwh ?g)\<rparr>]"
    by simp
  have dg: "distinct ?g" by simp
  have V: "{x \<in> set ?g. eh_load_mwh x \<noteq> None} = V" using assms(2) by auto
  have s: "sql_sum (map eh_load_mwh ?g) =
           (if V = {} then None else Some (\<Sum>x\<in>V. the (eh_load_mwh x)))"
    using sql_sum_distinct [OF dg, of eh_load_mwh] by (simp only: V)
  have m: "sql_max (map eh_load_mwh ?g) =
           (if V = {} then None else Some (Max ((\<lambda>x. the (eh_load_mwh x)) ` V)))"
    using sql_max_image [of eh_load_mwh ?g] by (simp only: V)
  from row s m eia_daily_load_set_only [OF assms(3)] show ?thesis by simp
qed

theorem eia_daily_load_counts_once_witness:
  "rx_replay ! 0 \<in> set rx_replay \<and> set [rx_replay ! 0] = set rx_replay
   \<and> filter (\<lambda>x. ed_region x = ''RX''
         \<and> ed_day_utc x = \<lparr>ts_year = 2023, ts_month = 7, ts_day = 4, ts_hour = 0\<rparr>)
       (eia_daily_load_sql rx_replay) =
     [\<lparr>ed_region = ''RX'', ed_day_utc = \<lparr>ts_year = 2023, ts_month = 7, ts_day = 4, ts_hour = 0\<rparr>,
       ed_daily_total_mwh = Some 500, ed_daily_peak_mwh = Some 500\<rparr>]
   \<and> eia_daily_load_sql [rx_replay ! 0] = eia_daily_load_sql rx_replay"
proof -
  have m: "rx_replay ! 0 \<in> set rx_replay" by (simp add: rx_replay_def)
  have V: "{rx_replay ! 0} = {x \<in> set rx_replay. eh_region x = eh_region (rx_replay ! 0)
               \<and> date_trunc_day (eh_hour_utc x) = date_trunc_day (eh_hour_utc (rx_replay ! 0))
               \<and> eh_load_mwh x \<noteq> None}"
    by (auto simp: rx_replay_def)
  have s: "set [rx_replay ! 0] = set rx_replay" by (simp add: rx_replay_def)
  from eia_daily_load_counts_once [OF m V s] m s show ?thesis
    by (simp add: rx_replay_def date_trunc_day_def)
qed

section \<open>The unified daily table\<close>

text \<open>
  C2, as the statement behaves. For every row of the unified table, is_hot_day is
  (daily_max_temp_C >= t90_max) when both are non-null, and NULL when daily_max_temp_C
  is NULL or t90_max is NULL, in particular when no threshold matches the row's station
  and calendar day.
\<close>

theorem is_hot_day_three_valued:
  assumes "r \<in> set (heat_load_daily_sql d t e)"
  shows "(\<forall>a b. hl_daily_max_temp_C r = Some a \<and> hl_t90_max r = Some b \<longrightarrow>
            hl_is_hot_day r = Some (a \<ge> b))
       \<and> (hl_daily_max_temp_C r = None \<or> hl_t90_max r = None \<longrightarrow> hl_is_hot_day r = None)
       \<and> ((\<forall>x\<in>set t. \<not> (hl_station r = th_station x
                          \<and> strftime_mmdd (hl_day_utc r) = th_mmdd x)) \<longrightarrow>
            hl_t90_max r = None \<and> hl_is_hot_day r = None)"
proof -
  from assms obtain n where n: "n \<in> set d" "r \<in> set (heat_load_rows t e n)"
    by (auto simp: set_heat_load_daily_sql)
  from heat_load_rows_fields [OF n(2)]
  have f: "hl_station r = nd_station n" "hl_day_utc r = nd_day_utc n"
    "hl_is_hot_day r = sql_ge (hl_daily_max_temp_C r) (hl_t90_max r)"
    by simp_all
  have a: "\<forall>a b. hl_daily_max_temp_C r = Some a \<and> hl_t90_max r = Some b \<longrightarrow>
            hl_is_hot_day r = Some (a \<ge> b)"
    by (simp add: f(3) sql_ge_def)
  have b: "hl_daily_max_temp_C r = None \<or> hl_t90_max r = None \<longrightarrow> hl_is_hot_day r = None"
    by (auto simp: f(3) sql_ge_def split: option.splits)
  have c: "(\<forall>x\<in>set t. \<not> (hl_station r = th_station x
                          \<and> strftime_mmdd (hl_day_utc r) = th_mmdd x)) \<longrightarrow>
            hl_t90_max r = None \<and> hl_is_hot_day r = None"
    using heat_load_rows_threshold [OF n(2)] b by (auto simp: f(1,2) split: if_splits)
  from a b c show ?thesis by blast
qed

theorem is_hot_day_three_valued_witness:
  "heat_load_daily_sql (noaa_daily_temp_sql two_julys)
     (noaa_temp_thresholds_sql (noaa_daily_temp_sql two_julys)) [] ! 0
   \<in> set (heat_load_daily_sql (noaa_daily_temp_sql two_julys)
            (noaa_temp_thresholds_sql (noaa_daily_temp_sql two_julys)) [])
   \<and> hl_daily_max_temp_C (heat_load_daily_sql (noaa_daily_temp_sql two_julys)
        (noaa_temp_thresholds_sql (noaa_daily_temp_sql two_julys)) [] ! 0) = None
   \<and> hl_is_hot_day (heat_load_daily_sql (noaa_daily_temp_sql two_julys)
        (noaa_temp_thresholds_sql (noaa_daily_temp_sql two_julys)) [] ! 0) = None
   \<and> hl_daily_max_temp_C (heat_load_daily_sql (noaa_daily_temp_sql two_julys)
        (noaa_temp_thresholds_sql (noaa_daily_temp_sql two_julys)) [] ! 1) = Some 30
   \<and> hl_t90_max (heat_load_daily_sql (noaa_daily_temp_sql two_julys)
        (noaa_temp_thresholds_sql (noaa_daily_temp_sql two_julys)) [] ! 1) = Some 30
   \<and> hl_is_hot_day (heat_load_daily_sql (noaa_daily_temp_sql two_julys)
        (noaa_temp_thresholds_sql (noaa_daily_temp_sql two_julys)) [] ! 1) = Some True"
proof -
  let ?u = "heat_load_daily_sql (noaa_daily_temp_sql two_julys)
              (noaa_temp_thresholds_sql (noaa_daily_temp_sql two_julys)) []"
  have m0: "?u ! 0 \<in> set ?u" by (simp add: two_julys_unified)
  have m1: "?u ! 1 \<in> set ?u" by (simp add: two_julys_unified)
  have a0: "hl_daily_max_temp_C (?u ! 0) = None" by (simp add: two_julys_unified)
  have a1: "hl_daily_max_temp_C (?u ! 1) = Some 30" by (simp add: two_julys_unified)
  have b1: "hl_t90_max (?u ! 1) = Some 30" by (simp add: two_julys_unified)
  from is_hot_day_three_valued [OF m0] a0 have c0: "hl_is_hot_day (?u ! 0) = None" by blast
  from is_hot_day_three_valued [OF m1] a1 b1 have c1: "hl_is_hot_day (?u ! 1) = Some True"
    by simp
  from m0 a0 c0 a1 b1 c1 show ?thesis by blast
qed

text \<open>
  C2, as claimed, fails: with a NULL reading on 2020-07-04 and 30 degrees on 2021-07-04
  the row of 2020-07-04 has the non-null t90_max 30 and a NULL is_hot_day, not false.
\<close>

theorem is_hot_day_null_max_counterexample:
  "heat_load_daily_sql
     (noaa_daily_temp_sql
        [\<lparr>nh_station = ''IAD'',
          nh_hour_utc = \<lparr>ts_year = 2020, ts_month = 7, ts_day = 4, ts_hour = 0\<rparr>,
          nh_temp_C = None\<rparr>,
         \<lparr>nh_station = ''IAD'',
          nh_hour_utc = \<lparr>ts_year = 2021, ts_month = 7, ts_day = 4, ts_hour = 0\<rparr>,
          nh_temp_C = Some 30\<rparr>])
     (noaa_temp_thresholds_sql (noaa_daily_temp_sql
        [\<lparr>nh_station = ''IAD'',
          nh_hour_utc = \<lparr>ts_year = 2020, ts_month = 7, ts_day = 4, ts_hour = 0\<rparr>,
          nh_temp_C = None\<rparr>,
         \<lparr>nh_station = ''IAD'',
          nh_hour_utc = \<lparr>ts_year = 2021, ts_month = 7, ts_day = 4, ts_hour = 0\<rparr>,
          nh_temp_C = Some 30\<rparr>]))
     (eia_daily_load_sql []) =
   [\<lparr>hl_station = ''IAD'', hl_region = Some ''PJM'',
     hl_day_utc = \<lparr>ts_year = 2020, ts_month = 7, ts_day = 4, ts_hour = 0\<rparr>,
     hl_daily_max_temp_C = None, hl_avg_temp_C = None, hl_t90_max = Some 30,
     hl_is_hot_day = None, hl_daily_total_mwh = None, hl_daily_peak_mwh = None\<rparr>,
    \<lparr>hl_station = ''IAD'', hl_region = Some ''PJM'',
     hl_day_utc = \<lparr>ts_year = 2021, ts_month = 7, ts_day = 4, ts_hour = 0\<rparr>,
     hl_daily_max_temp_C = Some 30, hl_avg_temp_C = Some 30, hl_t90_max = Some 30,
     hl_is_hot_day = Some True, hl_daily_total_mwh = None, hl_daily_peak_mwh = None\<rparr>]"
proof -
  have e: "eia_daily_load_sql [] = []" by (simp add: eia_daily_load_sql_def group_by_def)
  show ?thesis
    unfolding two_julys_def [symmetric] e by (rule two_julys_unified)
qed

text \<open>
  C3, as the function behaves. For every daily record whose station is neither IAD nor
  BOS, heat_load_daily raises no error when its three input tables exist: it creates
  the unified table, which holds a row for that record with a NULL region.
\<close>

theorem unmapped_station_no_error:
  assumes "noaa_daily_temp c = Some d" and "noaa_temp_thresholds c = Some t"
    and "eia_daily_load c = Some e"
    and "n \<in> set d" and "nd_station n \<noteq> ''IAD''" and "nd_station n \<noteq> ''BOS''"
  shows "\<exists>c' u. heat_load_daily c = Inr c' \<and> heat_load_daily_tbl c' = Some u
           \<and> (\<exists>r\<in>set u. hl_station r = nd_station n \<and> hl_day_utc r = nd_day_utc n
                  \<and> hl_daily_max_temp_C r = nd_daily_max_temp_C n \<and> hl_region r = None)"
proof -
  let ?u = "heat_load_daily_sql d t e"
  have run: "heat_load_daily c = Inr (c\<lparr>heat_load_daily_tbl := Some ?u\<rparr>)"
    by (simp add: heat_load_daily_def assms(1-3))
  obtain r where r: "r \<in> set (heat_load_rows t e n)"
    using heat_load_rows_nonempty [of t e n] by (cases "heat_load_rows t e n") auto
  have ro: "region_of (nd_station n) = None" using assms(5,6) by (simp add: region_of_def)
  have "r \<in> set ?u" using r assms(4) by (auto simp: set_heat_load_daily_sql)
  moreover from heat_load_rows_fields [OF r]
  have "hl_station r = nd_station n \<and> hl_day_utc r = nd_day_utc n
        \<and> hl_daily_max_temp_C r = nd_daily_max_temp_C n \<and> hl_region r = None"
    by (simp add: ro)
  ultimately show ?thesis using run by force
qed

theorem unmapped_station_no_error_witness:
  "noaa_daily_temp dca_db = Some dca_day \<and> noaa_temp_thresholds dca_db = Some []
   \<and> eia_daily_load dca_db = Some isne_day \<and> dca_day ! 0 \<in> set dca_day
   \<and> nd_station (dca_day ! 0) \<noteq> ''IAD'' \<and> nd_station (dca_day ! 0) \<noteq> ''BOS''
   \<and> (\<exists>c' u. heat_load_daily dca_db = Inr c' \<and> heat_load_daily_tbl c' = Some u
         \<and> (\<exists>r\<in>set u. hl_station r = ''DCA'' \<and> hl_region r = None))"
proof -
  have h1: "noaa_daily_temp dca_db = Some dca_day" by (simp add: dca_db_def)
  have h2: "noaa_temp_thresholds dca_db = Some []" by (simp add: dca_db_def)
  have h3: "eia_daily_load dca_db = Some isne_day" by (simp add: dca_db_def)
  have h4: "dca_day ! 0 \<in> set dca_day" by (simp add: dca_day_def)
  have h5: "nd_station (dca_day ! 0) \<noteq> ''IAD''" by (simp add: dca_day_def)
  have h6: "nd_station (dca_day ! 0) \<noteq> ''BOS''" by (simp add: dca_day_def)
  have s: "nd_station (dca_day ! 0) = ''DCA''" by (simp add: dca_day_def)
  from unmapped_station_no_error [OF h1 h2 h3 h4 h5 h6] h1 h2 h3 h4 h5 h6 show ?thesis
    unfolding s by blast
qed

text \<open>
  C3, as claimed, fails: on a daily table holding station DCA the function returns
  normally, and the unified table holds the DCA row with a NULL region.
\<close>

theorem unmapped_station_counterexample:
  "heat_load_daily
     \<lparr>noaa_hourly_avg = None, eia_load_hourly = None,
      noaa_daily_temp = Some
        [\<lparr>nd_station = ''DCA'',
          nd_day_utc = \<lparr>ts_year = 2023, ts_month = 7, ts_day = 4, ts_hour = 0\<rparr>,
          nd_daily_max_temp_C = Some 33, nd_avg_temp_C = Some 28\<rparr>],
      noaa_temp_thresholds = Some [], noaa_heatwave_flags = None,
      eia_daily_load = Some
        [\<lparr>ed_region = ''ISNE'',
          ed_day_utc = \<lparr>ts_year = 2023, ts_month = 7, ts_day = 4, ts_hour = 0\<rparr>,
          ed_daily_total_mwh = Some 1000, ed_daily_peak_mwh = Some 60\<rparr>],
      heat_load_daily_tbl = None\<rparr> =
   Inr \<lparr>noaa_hourly_avg = None, eia_load_hourly = None,
      noaa_daily_temp = Some
        [\<lparr>nd_station = ''DCA'',
          nd_day_utc = \<lparr>ts_year = 2023, ts_month = 7, ts_day = 4, ts_hour = 0\<rparr>,
          nd_daily_max_temp_C = Some 33, nd_avg_temp_C = Some 28\<rparr>],
      noaa_temp_thresholds = Some [], noaa_heatwave_flags = None,
      eia_daily_load = Some
        [\<lparr>ed_region = ''ISNE'',
          ed_day_utc = \<lparr>ts_year = 2023, ts_month = 7, ts_day = 4, ts_hour = 0\<rparr>,
          ed_daily_total_mwh = Some 1000, ed_daily_peak_mwh = Some 60\<rparr>],
      heat_load_daily_tbl = Some
        [\<lparr>hl_station = ''DCA'', hl_region = None,
          hl_day_utc = \<lparr>ts_year = 2023, ts_month = 7, ts_day = 4, ts_hour = 0\<rparr>,
          hl_daily_max_temp_C = Some 33, hl_avg_temp_C = Some 28, hl_t90_max = None,
          hl_is_hot_day = None, hl_daily_total_mwh = Some 1000,
          hl_daily_peak_mwh = Some 60\<rparr>]\<rparr>"
  unfolding dca_day_def [symmetric] isne_day_def [symmetric]
  by (simp add: heat_load_daily_def dca_unified)



text \<open>
  C9. For every daily record whose station is neither IAD nor BOS, the join emits at
  least one row, every such row has a NULL region, and its load columns are those of a
  load record of region ISNE on the same day when there is one, and NULL otherwise.
\<close>

theorem unmapped_station_isne_load:
  assumes "n \<in> set d" and "nd_station n \<noteq> ''IAD''" and "nd_station n \<noteq> ''BOS''"
  shows "heat_load_rows t e n \<noteq> []
       \<and> set (heat_load_rows t e n) \<subseteq> set (heat_load_daily_sql d t e)
       \<and> (\<forall>r\<in>set (heat_load_rows t e n).
            hl_station r = nd_station n \<and> hl_day_utc r = nd_day_utc n \<and> hl_region r = None
            \<and> (if \<forall>x\<in>set e. \<not> (ed_region x = ''ISNE'' \<and> ed_day_utc x = nd_day_utc n)
               then hl_daily_total_mwh r = None \<and> hl_daily_peak_mwh r = None
               else \<exists>x\<in>set e. ed_region x = ''ISNE'' \<and> ed_day_utc x = nd_day_utc n
                      \<and> hl_daily_total_mwh r = ed_daily_total_mwh x
                      \<and> hl_daily_peak_mwh r = ed_daily_peak_mwh x))"
proof -
  have jr: "join_region (nd_station n) = ''ISNE''" using assms(2) by (simp add: join_region_def)
  have ro: "region_of (nd_station n) = None" using assms(2,3) by (simp add: region_of_def)
  have sub: "set (heat_load_rows t e n) \<subseteq> set (heat_load_daily_sql d t e)"
    using assms(1) by (auto simp: set_heat_load_daily_sql)
  have rows: "\<forall>r\<in>set (heat_load_rows t e n).
            hl_station r = nd_station n \<and> hl_day_utc r = nd_day_utc n \<and> hl_region r = None
            \<and> (if \<forall>x\<in>set e. \<not> (ed_region x = ''ISNE'' \<and> ed_day_utc x = nd_day_utc n)
               then hl_daily_total_mwh r = None \<and> hl_daily_peak_mwh r = None
               else \<exists>x\<in>set e. ed_region x = ''ISNE'' \<and> ed_day_utc x = nd_day_utc n
                      \<and> hl_daily_total_mwh r = ed_daily_total_mwh x
                      \<and> hl_daily_peak_mwh r = ed_daily_peak_mwh x)"
  proof
    fix r assume r: "r \<in> set (heat_load_rows t e n)"
    from heat_load_rows_fields [OF r] heat_load_rows_load [OF r]
    show "hl_station r = nd_station n \<and> hl_day_utc r = nd_day_utc n \<and> hl_region r = None
            \<and> (if \<forall>x\<in>set e. \<not> (ed_region x = ''ISNE'' \<and> ed_day_utc x = nd_day_utc n)
               then hl_daily_total_mwh r = None \<and> hl_daily_peak_mwh r = None
               else \<exists>x\<in>set e. ed_region x = ''ISNE'' \<and> ed_day_utc x = nd_day_utc n
                      \<and> hl_daily_total_mwh r = ed_daily_total_mwh x
                      \<and> hl_daily_peak_mwh r = ed_daily_peak_mwh x)"
      unfolding jr ro by simp
  qed
  from heat_load_rows_nonempty sub rows show ?thesis by blast
qed

theorem unmapped_station_isne_load_witness:
  "dca_day ! 0 \<in> set dca_day
   \<and> nd_station (dca_day ! 0) \<noteq> ''IAD'' \<and> nd_station (dca_day ! 0) \<noteq> ''BOS''
   \<and> (\<exists>r. r \<in> set (heat_load_rows [] isne_day (dca_day ! 0))
          \<and> r \<in> set (heat_load_daily_sql dca_day [] isne_day)
          \<and> hl_region r = None \<and> hl_daily_total_mwh r = Some 1000
          \<and> hl_daily_peak_mwh r = Some 60)"
proof -
  have h4: "dca_day ! 0 \<in> set dca_day" by (simp add: dca_day_def)
  have h5: "nd_station (dca_day ! 0) \<noteq> ''IAD''" by (simp add: dca_day_def)
  have h6: "nd_station (dca_day ! 0) \<noteq> ''BOS''" by (simp add: dca_day_def)
  have d: "nd_day_utc (dca_day ! 0) = \<lparr>ts_year = 2023, ts_month = 7, ts_day = 4, ts_hour = 0\<rparr>"
    by (simp add: dca_day_def)
  from unmapped_station_isne_load [OF h4 h5 h6, of "[]" isne_day]
  have ne: "heat_load_rows [] isne_day (dca_day ! 0) \<noteq> []"
    and sub: "set (heat_load_rows [] isne_day (dca_day ! 0))
              \<subseteq> set (heat_load_daily_sql dca_day [] isne_day)"
    and rows: "\<forall>r\<in>set (heat_load_rows [] isne_day (dca_day ! 0)).
         hl_region r = None \<and> hl_daily_total_mwh r = Some 1000 \<and> hl_daily_peak_mwh r = Some 60"
    unfolding d by (simp_all add: isne_day_def)
  from ne obtain r where r: "r \<in> set (heat_load_rows [] isne_day (dca_day ! 0))"
    by (cases "heat_load_rows [] isne_day (dca_day ! 0)") auto
  with sub rows h4 h5 h6 show ?thesis by blast
qed

section \<open>The heatwave flags\<close>

text \<open>
  C10. With the thresholds built from the daily table itself, every daily row has a
  threshold row for its station and calendar day, the flag table has as many rows as
  the daily table, and it holds the same (station, day, maximum, mean) rows.
\<close>

theorem flags_row_count:
  assumes "t = noaa_temp_thresholds_sql d"
  shows "(\<forall>n\<in>set d. \<exists>x\<in>set t. th_station x = nd_station n
                              \<and> th_mmdd x = strftime_mmdd (nd_day_utc n))
       \<and> length (noaa_heatwave_flags_sql d t) = length d
       \<and> mset (map (\<lambda>r. (hf_station r, hf_day_utc r, hf_daily_max_temp_C r, hf_avg_temp_C r))
                 (noaa_heatwave_flags_sql d t)) =
         mset (map (\<lambda>n. (nd_station n, nd_day_utc n, nd_daily_max_temp_C n, nd_avg_temp_C n)) d)"
proof -
  let ?g = "\<lambda>r. (hf_station r, hf_day_utc r, hf_daily_max_temp_C r, hf_avg_temp_C r)"
  let ?g' = "\<lambda>n. (nd_station n, nd_day_utc n, nd_daily_max_temp_C n, nd_avg_temp_C n)"
  let ?P = "\<lambda>n x. nd_station n = th_station x \<and> strftime_mmdd (nd_day_utc n) = th_mmdd x"
  let ?mk = "\<lambda>n x. \<lparr>hf_station = nd_station n, hf_day_utc = nd_day_utc n,
                     hf_daily_max_temp_C = nd_daily_max_temp_C n,
                     hf_avg_temp_C = nd_avg_temp_C n,
                     hf_t90_max = th_t90_max x,
                     hf_is_hot_day =
                       (if sql_ge (nd_daily_max_temp_C n) (th_t90_max x) = Some True
                        then 1 else 0)\<rparr>"
  let ?f = "\<lambda>n. map (?mk n) (filter (?P n) t)"
  have one: "\<And>n. n \<in> set d \<Longrightarrow> \<exists>x. filter (?P n) t = [x]"
  proof -
    fix n assume "n \<in> set d"
    from thresholds_match_eq1 [OF this] have "length (filter (?P n) t) = 1"
      by (simp add: assms)
    then show "\<exists>x. filter (?P n) t = [x]"
      by (cases "filter (?P n) t") auto
  qed
  have cover: "\<forall>n\<in>set d. \<exists>x\<in>set t. th_station x = nd_station n
                              \<and> th_mmdd x = strftime_mmdd (nd_day_utc n)"
  proof
    fix n assume "n \<in> set d"
    from one [OF this] obtain x where "filter (?P n) t = [x]" by blast
    then have "x \<in> set (filter (?P n) t)" by simp
    then show "\<exists>x\<in>set t. th_station x = nd_station n \<and> th_mmdd x = strftime_mmdd (nd_day_utc n)"
      by auto
  qed
  have single: "\<And>n. n \<in> set d \<Longrightarrow> \<exists>r. ?f n = [r] \<and> ?g r = ?g' n"
  proof -
    fix n assume "n \<in> set d"
    from one [OF this] obtain x where "filter (?P n) t = [x]" by blast
    then show "\<exists>r. ?f n = [r] \<and> ?g r = ?g' n" by simp
  qed
  from concat_map_single [of d ?f ?g ?g', OF single]
  have c: "length (concat (map ?f d)) = length d" "map ?g (concat (map ?f d)) = map ?g' d"
    by blast+
  have fl: "noaa_heatwave_flags_sql d t =
            sort_key (\<lambda>r. (hf_station r, ts_key (hf_day_utc r))) (concat (map ?f d))"
    by (simp add: noaa_heatwave_flags_sql_def)
  have len: "length (noaa_heatwave_flags_sql d t) = length d"
    by (simp only: fl length_sort c(1))
  have "mset (map ?g (noaa_heatwave_flags_sql d t)) = mset (map ?g (concat (map ?f d)))"
    by (simp only: fl mset_map mset_sort)
  then have ms: "mset (map ?g (noaa_heatwave_flags_sql d t)) = mset (map ?g' d)"
    by (simp only: c(2))
  from cover len ms show ?thesis by blast
qed

theorem flags_row_count_witness:
  "s1_history ! 0 \<in> set s1_history
   \<and> (\<exists>x\<in>set (noaa_temp_thresholds_sql s1_history).
         th_station x = ''S1'' \<and> th_mmdd x = ''07-04'')
   \<and> length (noaa_heatwave_flags_sql s1_history (noaa_temp_thresholds_sql s1_history)) = 10"
proof -
  have m: "s1_history ! 0 \<in> set s1_history" by (simp add: s1_history_def)
  have k: "nd_station (s1_history ! 0) = ''S1''"
    "strftime_mmdd (nd_day_utc (s1_history ! 0)) = ''07-04''"
    by (simp_all add: s1_history_def strftime_mmdd_def pad2_def digit_def)
  have l: "length s1_history = 10" by (simp add: s1_history_def)
  from flags_row_count [OF refl, of s1_history]
  have cover: "\<forall>n\<in>set s1_history. \<exists>x\<in>set (noaa_temp_thresholds_sql s1_history).
                 th_station x = nd_station n \<and> th_mmdd x = strftime_mmdd (nd_day_utc n)"
    and len: "length (noaa_heatwave_flags_sql s1_history (noaa_temp_thresholds_sql s1_history)) =
              length s1_history"
    by blast+
  from cover m have "\<exists>x\<in>set (noaa_temp_thresholds_sql s1_history).
      th_station x = nd_station (s1_history ! 0)
      \<and> th_mmdd x = strftime_mmdd (nd_day_utc (s1_history ! 0))"
    by blast
  then have "\<exists>x\<in>set (noaa_temp_thresholds_sql s1_history).
      th_station x = ''S1'' \<and> th_mmdd x = ''07-04''"
    by (simp only: k)
  with m len l show ?thesis by simp
qed

end
